theory Spec2Isabelle
  imports
    Complex_Main
    "HOL-Library.Char_ord"
    "HOL-Library.List_Lexorder"
    "HOL-Library.Product_Lexorder"
    "HOL-Library.AList"
    "HOL-Library.Sublist"
begin

section \<open>The message store (app/storage.py)\<close>

text \<open>
  The table \<^verbatim>\<open>messages\<close> created by \<^verbatim>\<open>Storage.init_db\<close> has the columns
  \<^verbatim>\<open>message_id TEXT PRIMARY KEY\<close>, \<^verbatim>\<open>from_msisdn TEXT NOT NULL\<close>,
  \<^verbatim>\<open>to_msisdn TEXT NOT NULL\<close>, \<^verbatim>\<open>ts TEXT NOT NULL\<close>, \<^verbatim>\<open>text TEXT\<close> and
  \<^verbatim>\<open>created_at TEXT NOT NULL\<close>. A row is a record of these columns; the only column
  that may hold NULL is \<^verbatim>\<open>text\<close>. A Python \<^verbatim>\<open>str\<close> is a \<open>string\<close>, one
  \<open>char\<close> for each character. The column \<^verbatim>\<open>ts\<close> holds the text that
  \<^verbatim>\<open>datetime.isoformat()\<close> produced; the conversion itself belongs to the datetime
  library and is not part of the model. The table is the list of its rows in
  insertion order. The column \<^verbatim>\<open>text\<close> is the field \<open>msg_text\<close>, since
  \<open>text\<close> is a keyword of the theory language.
\<close>

record message_row =
  message_id :: string
  from_msisdn :: string
  to_msisdn :: string
  ts :: string
  msg_text :: "string option"
  created_at :: string

type_synonym messages_table = "message_row list"

text \<open>
  What \<^verbatim>\<open>aiosqlite.IntegrityError\<close> can report. \<^verbatim>\<open>insert_message\<close> looks
  for the words \<^verbatim>\<open>UNIQUE constraint failed\<close> in the message and raises every other
  integrity error again.
\<close>

datatype integrity_error = Unique_constraint_failed | Other_integrity_error

definition init_db :: "messages_table option \<Rightarrow> messages_table" where
  \<comment> \<open>\<^verbatim>\<open>CREATE TABLE IF NOT EXISTS\<close>: an existing table is kept as it is.\<close>
  "init_db existing = (case existing of None \<Rightarrow> [] | Some rows \<Rightarrow> rows)"

definition sql_insert :: "message_row \<Rightarrow> messages_table \<Rightarrow> integrity_error + messages_table" where
  \<comment> \<open>\<^verbatim>\<open>INSERT INTO messages (...) VALUES (?, ?, ?, ?, ?, ?)\<close> followed by the commit:
      the primary key admits one row for each \<^verbatim>\<open>message_id\<close>.\<close>
  "sql_insert row rows =
     (if \<exists>r \<in> set rows. message_id r = message_id row
      then Inl Unique_constraint_failed
      else Inr (rows @ [row]))"

definition insert_message ::
  "string \<Rightarrow> string \<Rightarrow> string \<Rightarrow> string \<Rightarrow> string option \<Rightarrow> string \<Rightarrow> messages_table
     \<Rightarrow> integrity_error + (bool \<times> messages_table)" where
  \<comment> \<open>The argument \<open>now\<close> is the reading of the clock, \<open>ts_str\<close> the text of the
      timestamp. The result is the returned flag with the table after the call.\<close>
  "insert_message mid sender receiver ts_str txt now rows =
     (case sql_insert
             \<lparr>message_id = mid, from_msisdn = sender, to_msisdn = receiver,
              ts = ts_str, msg_text = txt, created_at = now\<rparr> rows of
        Inr rows' \<Rightarrow> Inr (True, rows')
      | Inl Unique_constraint_failed \<Rightarrow> Inr (False, rows)
      | Inl e \<Rightarrow> Inl e)"

definition find_message :: "string \<Rightarrow> messages_table \<Rightarrow> message_row option" where
  "find_message mid rows = find (\<lambda>r. message_id r = mid) rows"

text \<open>
  A run of calls of \<^verbatim>\<open>insert_message\<close>, one after the other on the same store: each
  call is given by its arguments and the reading of the clock; the result holds the
  returned flags and the table after the last call.
\<close>

type_synonym insert_call = "string \<times> string \<times> string \<times> string \<times> string option \<times> string"

fun insert_all ::
  "insert_call list \<Rightarrow> messages_table \<Rightarrow> integrity_error + (bool list \<times> messages_table)" where
  "insert_all [] rows = Inr ([], rows)"
| "insert_all ((mid, sender, receiver, ts_str, txt, now) # rest) rows =
     (case insert_message mid sender receiver ts_str txt now rows of
        Inl e \<Rightarrow> Inl e
      | Inr (inserted, rows') \<Rightarrow>
          (case insert_all rest rows' of
             Inl e \<Rightarrow> Inl e
           | Inr (flags, rows'') \<Rightarrow> Inr (inserted # flags, rows'')))"

definition example_rowA :: message_row where
  "example_rowA =
     \<lparr>message_id = ''A'', from_msisdn = ''+111'', to_msisdn = ''+999'',
      ts = ''2023-01-01T10:00:00+00:00'', msg_text = Some ''foo'',
      created_at = ''2023-01-03T09:00:00+00:00''\<rparr>"

definition example_rowB :: message_row where
  "example_rowB =
     \<lparr>message_id = ''B'', from_msisdn = ''+222'', to_msisdn = ''+999'',
      ts = ''2023-01-02T10:00:00+00:00'', msg_text = Some ''bar'',
      created_at = ''2023-01-03T09:00:01+00:00''\<rparr>"

section \<open>Queries (Storage.query_messages)\<close>






subsection \<open>What SQLite does with the statements\<close>





























section \<open>The metrics registry (app/metrics.py)\<close>

text \<open>
  A series is identified by the metric's name and the \<^verbatim>\<open>frozenset\<close> of the items of
  its labels dictionary. The four dictionaries of the registry are association
  lists: Python iterates over a dictionary in the order in which its keys were
  first stored, and \<^verbatim>\<open>render_metrics\<close> prints in that order.

  Counter values and bucket counts are Python floats that start at \<^verbatim>\<open>0.0\<close> and only
  ever grow by \<^verbatim>\<open>1.0\<close>. Such a float holds a whole number, kept here as a \<open>nat\<close>;
  the addition is exact up to \<open>2 ^ 53\<close>, and there \<^verbatim>\<open>x + 1.0\<close> rounds back to \<^verbatim>\<open>x\<close>
  (the sum lies halfway between two doubles and the tie goes to the even one).
  \<^verbatim>\<open>histogram_counts\<close> holds Python ints, which have no bound. A latency is a float
  with an arbitrary value, a \<open>real\<close> here; adding two of them rounds, so the
  addition \<open>fadd\<close> and the printing \<open>frepr\<close> of such floats are parameters.
\<close>

datatype py_error = KeyError | IndexError

type_synonym label_key = "(string \<times> string) set"

type_synonym series_key = "string \<times> label_key"

record metrics =
  counters :: "(series_key \<times> nat) list"
  latency_buckets :: "int list"
  histograms :: "(series_key \<times> nat list) list"
  histogram_sums :: "(series_key \<times> real) list"
  histogram_counts :: "(series_key \<times> nat) list"

definition metrics_init :: metrics where
  "metrics_init =
     \<lparr>counters = [], latency_buckets = [10, 50, 100, 200, 500, 1000, 5000],
      histograms = [], histogram_sums = [], histogram_counts = []\<rparr>"

definition float_incr :: "nat \<Rightarrow> nat" where
  \<comment> \<open>\<^verbatim>\<open>x + 1.0\<close> on a double that holds the whole number \<open>x\<close>\<close>
  "float_incr x = (if x < 2 ^ 53 then x + 1 else x)"

definition get_label_key :: "(string \<times> string) list \<Rightarrow> label_key" where
  \<comment> \<open>\<^verbatim>\<open>frozenset(labels.items())\<close>, the dictionary given by its items\<close>
  "get_label_key labels = set labels"

definition dict_get :: "('k \<times> 'v) list \<Rightarrow> 'k \<Rightarrow> py_error + 'v" where
  \<comment> \<open>\<^verbatim>\<open>d[k]\<close>\<close>
  "dict_get d k = (case map_of d k of None \<Rightarrow> Inl KeyError | Some v \<Rightarrow> Inr v)"

definition dict_get_default :: "('k \<times> 'v) list \<Rightarrow> 'k \<Rightarrow> 'v \<Rightarrow> 'v" where
  \<comment> \<open>\<^verbatim>\<open>d.get(k, default)\<close>\<close>
  "dict_get_default d k dflt = (case map_of d k of None \<Rightarrow> dflt | Some v \<Rightarrow> v)"

definition dict_set :: "'k \<Rightarrow> 'v \<Rightarrow> ('k \<times> 'v) list \<Rightarrow> ('k \<times> 'v) list" where
  \<comment> \<open>\<^verbatim>\<open>d[k] = v\<close>: a known key keeps its place, a new key goes to the end\<close>
  "dict_set k v d = AList.update k v d"

function str_nat :: "nat \<Rightarrow> string" where
  \<comment> \<open>\<^verbatim>\<open>str(n)\<close> for an int \<open>n \<ge> 0\<close>\<close>
  "str_nat n =
     (if n < 10 then [''0123456789'' ! n]
      else str_nat (n div 10) @ [''0123456789'' ! (n mod 10)])"
  by pat_completeness auto
termination
  by (relation "measure (\<lambda>n. n)") auto

definition str_int :: "int \<Rightarrow> string" where
  "str_int i = (if i < 0 then ''-'' @ str_nat (nat (- i)) else str_nat (nat i))"

definition str_count_float :: "nat \<Rightarrow> string" where
  \<comment> \<open>\<^verbatim>\<open>str(x)\<close> for a float that holds a whole number below \<open>10 ^ 16\<close>, as every
      counter and bucket does: the digits and \<^verbatim>\<open>.0\<close>\<close>
  "str_count_float x = str_nat x @ ''.0''"

fun update_buckets :: "real \<Rightarrow> (nat \<times> int) list \<Rightarrow> nat list \<Rightarrow> py_error + nat list" where
  \<comment> \<open>the loop \<^verbatim>\<open>for i, le in enumerate(self.latency_buckets)\<close> on the list
      \<^verbatim>\<open>self.histograms[hist_key]\<close>\<close>
  "update_buckets latency_ms [] buckets = Inr buckets"
| "update_buckets latency_ms ((i, le) # rest) buckets =
     (if latency_ms \<le> of_int le
      then (if i < length buckets
            then update_buckets latency_ms rest (buckets[i := float_incr (buckets ! i)])
            else Inl IndexError)
      else update_buckets latency_ms rest buckets)"

definition incr_last :: "nat list \<Rightarrow> py_error + nat list" where
  \<comment> \<open>\<^verbatim>\<open>buckets[-1] += 1.0\<close>\<close>
  "incr_last buckets =
     (if buckets = [] then Inl IndexError
      else Inr (buckets[length buckets - 1 := float_incr (buckets ! (length buckets - 1))]))"

text \<open>
  The body of \<^verbatim>\<open>record_http_request\<close> in three steps: the counter, then
  \<open>with_series\<close> (the block \<^verbatim>\<open>if hist_key not in self.histograms\<close>, which creates
  the series on first use), then \<open>observe_latency\<close> (the bucket loop, the last bucket,
  the sum and the count).
\<close>

definition with_series :: "series_key \<Rightarrow> metrics \<Rightarrow> metrics" where
  "with_series hist_key m =
     (if map_of (histograms m) hist_key = None
      then m\<lparr>histograms := dict_set hist_key (replicate (length (latency_buckets m) + 1) 0) (histograms m),
             histogram_sums := dict_set hist_key 0 (histogram_sums m),
             histogram_counts := dict_set hist_key 0 (histogram_counts m)\<rparr>
      else m)"

definition observe_latency ::
  "(real \<Rightarrow> real \<Rightarrow> real) \<Rightarrow> series_key \<Rightarrow> real \<Rightarrow> metrics \<Rightarrow> py_error + metrics" where
  "observe_latency fadd hist_key latency_ms m =
     (case dict_get (histograms m) hist_key of
        Inl e \<Rightarrow> Inl e
      | Inr buckets \<Rightarrow>
     (case update_buckets latency_ms (enumerate 0 (latency_buckets m)) buckets of
        Inl e \<Rightarrow> Inl e
      | Inr buckets \<Rightarrow>
     (case incr_last buckets of
        Inl e \<Rightarrow> Inl e
      | Inr buckets \<Rightarrow>
     (let m = m\<lparr>histograms := dict_set hist_key buckets (histograms m)\<rparr>
      in case dict_get (histogram_sums m) hist_key of
           Inl e \<Rightarrow> Inl e
         | Inr s \<Rightarrow>
        (let m = m\<lparr>histogram_sums := dict_set hist_key (fadd s latency_ms) (histogram_sums m)\<rparr>
         in case dict_get (histogram_counts m) hist_key of
              Inl e \<Rightarrow> Inl e
            | Inr c \<Rightarrow>
                Inr (m\<lparr>histogram_counts := dict_set hist_key (c + 1) (histogram_counts m)\<rparr>))))))"

definition record_http_request ::
  "(real \<Rightarrow> real \<Rightarrow> real) \<Rightarrow> string \<Rightarrow> int \<Rightarrow> real \<Rightarrow> metrics \<Rightarrow> py_error + metrics" where
  "record_http_request fadd path status latency_ms m =
     (let labels = [(''path'', path), (''status'', str_int status)];
          label_key = get_label_key labels;
          key = (''http_requests_total'', label_key);
          m = m\<lparr>counters := dict_set key (float_incr (dict_get_default (counters m) key 0)) (counters m)\<rparr>;
          hist_key = (''request_latency_ms'', label_key);
          m = with_series hist_key m
      in observe_latency fadd hist_key latency_ms m)"

definition record_webhook_result :: "string \<Rightarrow> metrics \<Rightarrow> metrics" where
  "record_webhook_result result m =
     (let labels = [(''result'', result)];
          label_key = get_label_key labels;
          key = (''webhook_requests_total'', label_key)
      in m\<lparr>counters := dict_set key (float_incr (dict_get_default (counters m) key 0)) (counters m)\<rparr>)"

subsection \<open>Rendering\<close>

fun join :: "string \<Rightarrow> string list \<Rightarrow> string" where
  \<comment> \<open>\<^verbatim>\<open>sep.join(xs)\<close>\<close>
  "join sep [] = []"
| "join sep [x] = x"
| "join sep (x # y # ys) = x @ sep @ join sep (y # ys)"

definition dquote :: string where
  "dquote = [CHR 0x22]"

definition label_pair :: "string \<times> string \<Rightarrow> string" where
  \<comment> \<open>the piece \<^verbatim>\<open>k="v"\<close> of a line\<close>
  "label_pair kv = fst kv @ ''='' @ dquote @ snd kv @ dquote"

definition sorted_labels :: "label_key \<Rightarrow> (string \<times> string) list" where
  \<comment> \<open>\<^verbatim>\<open>sorted(label_key)\<close>: the pairs in ascending order, compared as tuples\<close>
  "sorted_labels label_key = sorted_list_of_set label_key"

definition rstrip_comma :: "string \<Rightarrow> string" where
  \<comment> \<open>\<^verbatim>\<open>s.rstrip(",")\<close>\<close>
  "rstrip_comma s = rev (dropWhile (\<lambda>c. c = CHR '','') (rev s))"

definition counter_line :: "series_key \<times> nat \<Rightarrow> string" where
  "counter_line entry =
     (let ((name, label_key), v) = entry;
          label_str =
            (if label_key \<noteq> {}
             then ''{'' @ join '','' (map label_pair (sorted_labels label_key)) @ ''}''
             else '''')
      in name @ label_str @ '' '' @ str_count_float v)"

fun bucket_lines ::
  "string \<Rightarrow> string \<Rightarrow> (nat \<times> int) list \<Rightarrow> nat list \<Rightarrow> py_error + string list" where
  \<comment> \<open>the inner loop over \<^verbatim>\<open>enumerate(self.latency_buckets)\<close>\<close>
  "bucket_lines name base_label_str [] buckets = Inr []"
| "bucket_lines name base_label_str ((i, le) # rest) buckets =
     (if i < length buckets
      then (case bucket_lines name base_label_str rest buckets of
              Inl e \<Rightarrow> Inl e
            | Inr ls \<Rightarrow>
                Inr ((name @ ''_bucket{'' @ base_label_str @ ''le='' @ dquote @ str_int le @ dquote
                        @ ''} '' @ str_count_float (buckets ! i)) # ls))
      else Inl IndexError)"

definition histogram_lines ::
  "(real \<Rightarrow> string) \<Rightarrow> metrics \<Rightarrow> series_key \<times> nat list \<Rightarrow> py_error + string list" where
  "histogram_lines frepr m entry =
     (let ((name, label_key), buckets) = entry;
          base_label_str = join '','' (map label_pair (sorted_labels label_key));
          base_label_str = (if base_label_str \<noteq> [] then base_label_str @ '','' else base_label_str)
      in case bucket_lines name base_label_str (enumerate 0 (latency_buckets m)) buckets of
           Inl e \<Rightarrow> Inl e
         | Inr ls \<Rightarrow>
        (if buckets = [] then Inl IndexError
         else
        (let inf_line = name @ ''_bucket{'' @ base_label_str @ ''le='' @ dquote @ ''+Inf'' @ dquote
                          @ ''} '' @ str_count_float (buckets ! (length buckets - 1));
             suffix = rstrip_comma base_label_str;
             label_section = (if suffix \<noteq> [] then ''{'' @ suffix @ ''}'' else '''')
         in case dict_get (histogram_sums m) (name, label_key) of
              Inl e \<Rightarrow> Inl e
            | Inr s \<Rightarrow>
           (case dict_get (histogram_counts m) (name, label_key) of
              Inl e \<Rightarrow> Inl e
            | Inr c \<Rightarrow>
                Inr (ls @ [inf_line,
                           name @ ''_sum'' @ label_section @ '' '' @ frepr s,
                           name @ ''_count'' @ label_section @ '' '' @ str_nat c])))))"

fun all_histogram_lines ::
  "(real \<Rightarrow> string) \<Rightarrow> metrics \<Rightarrow> (series_key \<times> nat list) list \<Rightarrow> py_error + string list" where
  "all_histogram_lines frepr m [] = Inr []"
| "all_histogram_lines frepr m (entry # rest) =
     (case histogram_lines frepr m entry of
        Inl e \<Rightarrow> Inl e
      | Inr ls \<Rightarrow>
          (case all_histogram_lines frepr m rest of
             Inl e \<Rightarrow> Inl e
           | Inr ls' \<Rightarrow> Inr (ls @ ls')))"

definition render_metrics :: "(real \<Rightarrow> string) \<Rightarrow> metrics \<Rightarrow> py_error + string" where
  "render_metrics frepr m =
     (let lines = map counter_line (counters m)
      in case all_histogram_lines frepr m (histograms m) of
           Inl e \<Rightarrow> Inl e
         | Inr hlines \<Rightarrow> Inr (join [CHR 0x0A] (lines @ hlines) @ [CHR 0x0A]))"

subsection \<open>Sequences of observations\<close>

fun record_all ::
  "(real \<Rightarrow> real \<Rightarrow> real) \<Rightarrow> (string \<times> int \<times> real) list \<Rightarrow> metrics \<Rightarrow> py_error + metrics" where
  \<comment> \<open>one call of \<open>record_http_request\<close> after the other, each with its path, status
      and latency\<close>
  "record_all fadd [] m = Inr m"
| "record_all fadd ((path, status, latency_ms) # rest) m =
     (case record_http_request fadd path status latency_ms m of
        Inl e \<Rightarrow> Inl e
      | Inr m' \<Rightarrow> record_all fadd rest m')"

definition latency_series :: "string \<Rightarrow> int \<Rightarrow> series_key" where
  \<comment> \<open>the key \<^verbatim>\<open>hist_key\<close> under which a request with this path and status is observed\<close>
  "latency_series path status =
     (''request_latency_ms'', get_label_key [(''path'', path), (''status'', str_int status)])"

definition observations_of :: "series_key \<Rightarrow> (string \<times> int \<times> real) list \<Rightarrow> nat" where
  \<comment> \<open>how many of the observations belong to the series\<close>
  "observations_of key obs =
     length (filter (\<lambda>(path, status, latency_ms). latency_series path status = key) obs)"

definition bump :: "real \<Rightarrow> int list \<Rightarrow> nat list \<Rightarrow> nat list" where
  \<comment> \<open>the bucket list after one observation: every bucket whose bound is not below
      the value grows, and so does the last one\<close>
  "bump v les bs =
     map (\<lambda>(le, b). if v \<le> of_int le then float_incr b else b) (zip les bs)
       @ [float_incr (last bs)]"

definition histograms_ok :: "(string \<times> int \<times> real) list \<Rightarrow> metrics \<Rightarrow> bool" where
  \<comment> \<open>the state of the histograms after the observations \<open>obs\<close>\<close>
  "histograms_ok obs m =
     (sorted (latency_buckets m) \<and>
      (\<forall>key.
         case map_of (histograms m) key of
           None \<Rightarrow> observations_of key obs = 0
         | Some bs \<Rightarrow>
             length bs = length (latency_buckets m) + 1 \<and> sorted bs \<and>
             last bs = min (observations_of key obs) (2 ^ 53) \<and>
             map_of (histogram_counts m) key = Some (observations_of key obs) \<and>
             map_of (histogram_sums m) key \<noteq> None))"

section \<open>Idempotent insertion\<close>

lemma insert_message_known:
  assumes "r \<in> set rows" and "message_id r = mid"
  shows "insert_message mid sender receiver ts_str txt now rows = Inr (False, rows)"
  using assms by (auto simp: insert_message_def sql_insert_def)

lemma insert_message_fresh:
  assumes "\<forall>r \<in> set rows. message_id r \<noteq> mid"
  shows "insert_message mid sender receiver ts_str txt now rows =
           Inr (True, rows @ [\<lparr>message_id = mid, from_msisdn = sender, to_msisdn = receiver,
                               ts = ts_str, msg_text = txt, created_at = now\<rparr>])"
  using assms by (auto simp: insert_message_def sql_insert_def)

lemma insert_message_True_iff:
  "insert_message mid sender receiver ts_str txt now rows = Inr (True, rows') \<longleftrightarrow>
     (\<forall>r \<in> set rows. message_id r \<noteq> mid) \<and>
     rows' = rows @ [\<lparr>message_id = mid, from_msisdn = sender, to_msisdn = receiver,
                      ts = ts_str, msg_text = txt, created_at = now\<rparr>]"
  by (auto simp: insert_message_def sql_insert_def)

lemma find_message_append_fresh:
  assumes "\<forall>r \<in> set rows. message_id r \<noteq> mid" and "message_id row = mid"
  shows "find_message mid (rows @ [row]) = Some row"
  using assms by (induction rows) (auto simp: find_message_def)

lemma insert_message_result:
  assumes "insert_message mid sender receiver ts_str txt now rows = Inr (inserted, rows')"
  shows "(\<not> inserted \<and> rows' = rows) \<or>
         (inserted \<and> (\<forall>r \<in> set rows. message_id r \<noteq> mid) \<and>
          rows' = rows @ [\<lparr>message_id = mid, from_msisdn = sender, to_msisdn = receiver,
                           ts = ts_str, msg_text = txt, created_at = now\<rparr>])"
  using assms by (auto simp: insert_message_def sql_insert_def split: if_splits)

lemma find_append_first:
  "find P (xs @ ys) = (case find P xs of None \<Rightarrow> find P ys | Some x \<Rightarrow> Some x)"
  by (induction xs) simp_all

lemma insert_message_keeps:
  assumes "insert_message mid sender receiver ts_str txt now rows = Inr (inserted, rows')"
    and "r \<in> set rows"
  shows "r \<in> set rows'"
    and "find_message (message_id r) rows' = find_message (message_id r) rows"
    and "filter (\<lambda>x. message_id x = message_id r) rows' =
         filter (\<lambda>x. message_id x = message_id r) rows"
proof -
  from insert_message_result [OF assms(1)] assms(2)
  show "r \<in> set rows'" by auto
  have found: "find (\<lambda>x. message_id x = message_id r) rows \<noteq> None"
    using assms(2) by (auto simp: find_None_iff)
  from insert_message_result [OF assms(1)] assms(2) found
  show "find_message (message_id r) rows' = find_message (message_id r) rows"
    by (auto simp: find_message_def find_append_first split: option.splits)
  from insert_message_result [OF assms(1)] assms(2)
  show "filter (\<lambda>x. message_id x = message_id r) rows' =
        filter (\<lambda>x. message_id x = message_id r) rows"
    by auto
qed

lemma insert_all_keeps:
  assumes "insert_all calls rows = Inr (flags, rows')" and "r \<in> set rows"
  shows "r \<in> set rows' \<and>
         find_message (message_id r) rows' = find_message (message_id r) rows \<and>
         filter (\<lambda>x. message_id x = message_id r) rows' =
           filter (\<lambda>x. message_id x = message_id r) rows"
  using assms
proof (induction calls arbitrary: rows flags)
  case Nil
  then show ?case by simp
next
  case (Cons call calls)
  obtain mid sender receiver ts_str tx clock
    where call: "call = (mid, sender, receiver, ts_str, tx, clock)"
    by (cases call) auto
  from Cons.prems(1) obtain inserted rows1 flags1 where
    step: "insert_message mid sender receiver ts_str tx clock rows = Inr (inserted, rows1)"
    and rest: "insert_all calls rows1 = Inr (flags1, rows')"
    unfolding call by (auto split: sum.splits prod.splits)
  note keep = insert_message_keeps [OF step Cons.prems(2)]
  from Cons.IH [OF rest keep(1)] keep(2,3) show ?case by simp
qed

text \<open>
  Claim C1. For every message \<open>r\<close> that the store holds, and after any further run
  of calls of \<open>insert_message\<close> (for the same or for other \<open>message_id\<close>s), a call
  with the \<open>message_id\<close> of \<open>r\<close> returns False and leaves the table as it is: no row
  is added, \<open>r\<close> is still stored, and the rows under its \<open>message_id\<close> are the ones that
  were there before. When the store is the result of a first successful insertion
  of that \<open>message_id\<close>, the row found under it keeps the sender, receiver,
  timestamp, text and \<open>created_at\<close> of that first call.
\<close>

theorem insert_message_idempotent:
  assumes "r \<in> set rows" and "insert_all calls rows = Inr (flags, rows')"
  shows "insert_message (message_id r) sender2 receiver2 ts2 txt2 now2 rows' = Inr (False, rows')
         \<and> r \<in> set rows'
         \<and> filter (\<lambda>x. message_id x = message_id r) rows' =
             filter (\<lambda>x. message_id x = message_id r) rows
         \<and> find_message (message_id r) rows' = find_message (message_id r) rows
         \<and> (insert_message (message_id r) sender1 receiver1 ts1 txt1 now1 rows0 = Inr (True, rows)
              \<longrightarrow> find_message (message_id r) rows' =
                    Some \<lparr>message_id = message_id r, from_msisdn = sender1,
                          to_msisdn = receiver1, ts = ts1, msg_text = txt1,
                          created_at = now1\<rparr>)"
proof -
  note keep = insert_all_keeps [OF assms(2) assms(1)]
  from keep have in': "r \<in> set rows'" by simp
  then have dup: "insert_message (message_id r) sender2 receiver2 ts2 txt2 now2 rows' =
      Inr (False, rows')"
    by (rule insert_message_known) simp
  have first: "find_message (message_id r) rows' =
      Some \<lparr>message_id = message_id r, from_msisdn = sender1, to_msisdn = receiver1,
            ts = ts1, msg_text = txt1, created_at = now1\<rparr>"
    if "insert_message (message_id r) sender1 receiver1 ts1 txt1 now1 rows0 = Inr (True, rows)"
  proof -
    from that have fresh: "\<forall>x \<in> set rows0. message_id x \<noteq> message_id r"
      and rows: "rows = rows0 @ [\<lparr>message_id = message_id r, from_msisdn = sender1,
            to_msisdn = receiver1, ts = ts1, msg_text = txt1, created_at = now1\<rparr>]"
      by (simp_all add: insert_message_True_iff)
    have "find_message (message_id r) rows =
      Some \<lparr>message_id = message_id r, from_msisdn = sender1, to_msisdn = receiver1,
            ts = ts1, msg_text = txt1, created_at = now1\<rparr>"
      unfolding rows using fresh by (rule find_message_append_fresh) simp
    with keep show ?thesis by simp
  qed
  from dup in' keep first show ?thesis by blast
qed

text \<open>
  The witness stores message \<open>''A''\<close> first, then \<open>''B''\<close> and a repeated \<open>''B''\<close>, and
  posts \<open>''A''\<close> again with other fields: the older row is the one that stays.
\<close>

theorem insert_message_idempotent_witness:
  "insert_message ''A'' ''+111'' ''+999'' ''2023-01-01T10:00:00+00:00'' (Some ''foo'')
       ''2023-01-03T09:00:00+00:00'' [] = Inr (True, [example_rowA])
   \<and> insert_all
        [(''B'', ''+222'', ''+999'', ''2023-01-02T10:00:00+00:00'', Some ''bar'',
          ''2023-01-03T09:00:01+00:00''),
         (''B'', ''+333'', ''+888'', ''2023-01-02T11:00:00+00:00'', None,
          ''2023-01-03T09:00:02+00:00'')]
        [example_rowA] = Inr ([True, False], [example_rowA, example_rowB])
   \<and> insert_message ''A'' ''+444'' ''+777'' ''2024-02-02T10:00:00+00:00'' None
        ''2024-02-02T10:00:01+00:00'' [example_rowA, example_rowB] =
       Inr (False, [example_rowA, example_rowB])
   \<and> find_message ''A'' [example_rowA, example_rowB] = Some example_rowA"
proof -
  have first: "insert_message (message_id example_rowA) ''+111'' ''+999''
       ''2023-01-01T10:00:00+00:00'' (Some ''foo'') ''2023-01-03T09:00:00+00:00'' [] =
       Inr (True, [example_rowA])"
    by (simp add: insert_message_def sql_insert_def example_rowA_def)
  have run: "insert_all
        [(''B'', ''+222'', ''+999'', ''2023-01-02T10:00:00+00:00'', Some ''bar'',
          ''2023-01-03T09:00:01+00:00''),
         (''B'', ''+333'', ''+888'', ''2023-01-02T11:00:00+00:00'', None,
          ''2023-01-03T09:00:02+00:00'')]
        [example_rowA] = Inr ([True, False], [example_rowA, example_rowB])"
    by (simp add: insert_message_def sql_insert_def example_rowA_def example_rowB_def)
  have stored: "example_rowA \<in> set [example_rowA]" by simp
  have mid: "message_id example_rowA = ''A''" by (simp add: example_rowA_def)
  have row: "\<lparr>message_id = message_id example_rowA, from_msisdn = ''+111'',
      to_msisdn = ''+999'', ts = ''2023-01-01T10:00:00+00:00'', msg_text = Some ''foo'',
      created_at = ''2023-01-03T09:00:00+00:00''\<rparr> = example_rowA"
    by (simp add: example_rowA_def)
  from insert_message_idempotent [OF stored run,
      of "''+444''" "''+777''" "''2024-02-02T10:00:00+00:00''" None
         "''2024-02-02T10:00:01+00:00''"
         "''+111''" "''+999''" "''2023-01-01T10:00:00+00:00''" "Some ''foo''"
         "''2023-01-03T09:00:00+00:00''" "[]"]
    first run
  show ?thesis
    by (simp add: insert_message_def sql_insert_def find_message_def
        example_rowA_def example_rowB_def)
qed

section \<open>Filtering, ordering and counting in query_messages\<close>

























end
